theory Spec2Isabelle
  imports Complex_Main "HOL-Library.Log_Nat"
begin

section \<open>Python values and exceptions\<close>

text \<open>
  The values that \<^verbatim>\<open>response.json()\<close> can return, as Python objects: \<^verbatim>\<open>None\<close>,
  \<^verbatim>\<open>bool\<close>, \<^verbatim>\<open>int\<close>, \<^verbatim>\<open>float\<close>, \<^verbatim>\<open>str\<close>, \<^verbatim>\<open>list\<close> and \<^verbatim>\<open>dict\<close> (string keys,
  insertion order kept). A float is represented by the rational it denotes; the
  code only tests such a value for truth.
\<close>

datatype json =
    JNull
  | JBool bool
  | JInt int
  | JFloat rat
  | JStr string
  | JList "json list"
  | JObj "(string \<times> json) list"

text \<open>
  The exception classes that occur. \<^verbatim>\<open>HTTPError\<close>, \<^verbatim>\<open>ConnectionError\<close>, \<^verbatim>\<open>Timeout\<close>
  and \<^verbatim>\<open>JSONDecodeError\<close> are the classes of \<^verbatim>\<open>requests.exceptions\<close>, all
  subclasses of \<^verbatim>\<open>RequestException\<close>; every class here is a subclass of
  \<^verbatim>\<open>Exception\<close>, so \<^verbatim>\<open>except Exception\<close> catches each of them. An exception
  carries the text that \<^verbatim>\<open>str(e)\<close> gives.
\<close>

datatype exn_class =
    RequestException | HTTPError | ConnectionError | Timeout | JSONDecodeError
  | ValueError | TypeError | AttributeError | IndexError | KeyError

datatype exn = Exn exn_class string

fun exn_str :: "exn \<Rightarrow> string" where
  "exn_str (Exn c m) = m"

fun is_RequestException :: "exn \<Rightarrow> bool" where
  "is_RequestException (Exn c m) =
     (c = RequestException \<or> c = HTTPError \<or> c = ConnectionError \<or> c = Timeout
      \<or> c = JSONDecodeError)"

subsection \<open>Builtins used by the code\<close>

text \<open>\<^verbatim>\<open>bool(x)\<close>: the truth value Python gives an object in \<^verbatim>\<open>if x\<close>.\<close>

fun truthy :: "json \<Rightarrow> bool" where
  "truthy JNull = False"
| "truthy (JBool b) = b"
| "truthy (JInt i) = (i \<noteq> 0)"
| "truthy (JFloat r) = (r \<noteq> 0)"
| "truthy (JStr s) = (s \<noteq> [])"
| "truthy (JList xs) = (xs \<noteq> [])"
| "truthy (JObj kvs) = (kvs \<noteq> [])"

text \<open>
  The name of an object's type, \<^verbatim>\<open>type(x).__name__\<close>, and a text in single quotes,
  as the messages of Python's exceptions show them.
\<close>

fun py_type_name :: "json \<Rightarrow> string" where
  "py_type_name JNull = ''NoneType''"
| "py_type_name (JBool b) = ''bool''"
| "py_type_name (JInt i) = ''int''"
| "py_type_name (JFloat r) = ''float''"
| "py_type_name (JStr s) = ''str''"
| "py_type_name (JList xs) = ''list''"
| "py_type_name (JObj kvs) = ''dict''"

definition quoted :: "string \<Rightarrow> string" where
  "quoted s = [CHR 0x27] @ s @ [CHR 0x27]"

text \<open>\<^verbatim>\<open>len(x)\<close>: a \<^verbatim>\<open>TypeError\<close> for an object without a length.\<close>

fun py_len :: "json \<Rightarrow> exn + int" where
  "py_len (JList xs) = Inr (int (length xs))"
| "py_len (JObj kvs) = Inr (int (length kvs))"
| "py_len (JStr s) = Inr (int (length s))"
| "py_len x = Inl (Exn TypeError (''object of type '' @ quoted (py_type_name x) @ '' has no len()''))"

text \<open>
  \<^verbatim>\<open>x[0]\<close>: the first element of a list, the first character of a string, the
  value under the key \<^verbatim>\<open>0\<close> of a dict (decoded JSON has string keys only, so a
  \<^verbatim>\<open>KeyError\<close>), and a \<^verbatim>\<open>TypeError\<close> for anything else.
\<close>

fun py_index0 :: "json \<Rightarrow> exn + json" where
  "py_index0 (JList []) = Inl (Exn IndexError ''list index out of range'')"
| "py_index0 (JList (x # xs)) = Inr x"
| "py_index0 (JStr []) = Inl (Exn IndexError ''string index out of range'')"
| "py_index0 (JStr (c # cs)) = Inr (JStr [c])"
| "py_index0 (JObj kvs) = Inl (Exn KeyError ''0'')"
| "py_index0 x = Inl (Exn TypeError (quoted (py_type_name x) @ '' object is not subscriptable''))"

text \<open>
  \<^verbatim>\<open>for task in tasks\<close>: the elements of a list, the keys of a dict, the
  characters of a string; a \<^verbatim>\<open>TypeError\<close> for an object that is not iterable.
\<close>

fun py_iter :: "json \<Rightarrow> exn + json list" where
  "py_iter (JList xs) = Inr xs"
| "py_iter (JObj kvs) = Inr (map (\<lambda>kv. JStr (fst kv)) kvs)"
| "py_iter (JStr s) = Inr (map (\<lambda>c. JStr [c]) s)"
| "py_iter x = Inl (Exn TypeError (quoted (py_type_name x) @ '' object is not iterable''))"

text \<open>
  \<^verbatim>\<open>task.get(key, default)\<close>: defined on a dict only; every other object raises
  \<^verbatim>\<open>AttributeError\<close>.
\<close>

fun py_get :: "json \<Rightarrow> string \<Rightarrow> json \<Rightarrow> exn + json" where
  "py_get (JObj kvs) k d = Inr (case map_of kvs k of None \<Rightarrow> d | Some v \<Rightarrow> v)"
| "py_get x k d =
     Inl (Exn AttributeError (quoted (py_type_name x) @ '' object has no attribute '' @ quoted ''get''))"

text \<open>\<^verbatim>\<open>str(n)\<close> for an integer: its decimal digits.\<close>

definition digit_char :: "nat \<Rightarrow> char" where
  "digit_char d = char_of (48 + d)"

fun py_str_nat :: "nat \<Rightarrow> string" where
  "py_str_nat n = (if n < 10 then [digit_char n] else py_str_nat (n div 10) @ [digit_char (n mod 10)])"

definition py_str_int :: "int \<Rightarrow> string" where
  "py_str_int i = (if i < 0 then CHR ''-'' # py_str_nat (nat (- i)) else py_str_nat (nat i))"

subsection \<open>Floating point\<close>

text \<open>
  A Python \<^verbatim>\<open>float\<close> is an IEEE 754 binary64 number; a finite one is the rational it
  denotes. \<open>binary64 x\<close> is the double nearest to \<open>x\<close>, ties to the even significand,
  with 53 bits of precision and the least exponent -1022 (below it the spacing stays
  that of the subnormal numbers). Both operations of
  \<^verbatim>\<open>completed / total * 100\<close> are correctly rounded: the true division of two
  \<^verbatim>\<open>int\<close> and the product of two \<^verbatim>\<open>float\<close>. Overflow is not modelled: the
  values here are at most 100.
\<close>

definition pow2 :: "int \<Rightarrow> rat" where
  "pow2 e = (if 0 \<le> e then 2 ^ nat e else 1 / 2 ^ nat (- e))"

text \<open>For \<open>x > 0\<close>, the exponent \<open>e\<close> with \<open>2\<^sup>e \<le> x < 2\<^sup>e\<^sup>+\<^sup>1\<close>.\<close>

definition ilog2 :: "rat \<Rightarrow> int" where
  "ilog2 x =
     (let (a, b) = quotient_of x; e = bitlen a - bitlen b
      in if pow2 e \<le> x then e else e - 1)"

definition round_half_even :: "rat \<Rightarrow> int" where
  "round_half_even t =
     (let f = \<lfloor>t\<rfloor>; d = t - of_int f
      in if d < 1 / 2 then f else if 1 / 2 < d then f + 1 else if even f then f else f + 1)"

definition binary64 :: "rat \<Rightarrow> rat" where
  "binary64 x =
     (if x = 0 then 0
      else let e = max (ilog2 \<bar>x\<bar>) (- 1022); q = pow2 e / 2 ^ 52
           in of_int (round_half_even (x / q)) * q)"

section \<open>The HTTP layer\<close>

text \<open>
  A call of \<^verbatim>\<open>requests.get/post/patch/delete\<close>. The remote service and the network
  are a parameter: a transport takes the state of the remote side and a request and
  gives either the exception the call raises or the response, with the new state.
  Of a response the code uses \<^verbatim>\<open>raise_for_status()\<close> and \<^verbatim>\<open>json()\<close>; \<open>json_body\<close> is
  what \<^verbatim>\<open>json()\<close> does, a value or an exception.
\<close>

record http_request =
  req_method :: string
  req_url :: string
  req_headers :: "(string \<times> string) list"
  req_json :: "json option"

record response =
  status_code :: nat
  reason :: string
  resp_url :: string
  json_body :: "exn + json"

type_synonym 's transport = "'s \<Rightarrow> http_request \<Rightarrow> (exn + response) \<times> 's"

text \<open>
  \<^verbatim>\<open>response.raise_for_status()\<close> of the requests library: an \<^verbatim>\<open>HTTPError\<close> for a
  status from 400 to 599.
\<close>

definition raise_for_status :: "response \<Rightarrow> exn + unit" where
  "raise_for_status r =
     (if 400 \<le> status_code r \<and> status_code r < 500 then
        Inl (Exn HTTPError (py_str_nat (status_code r) @ '' Client Error: '' @ reason r
                             @ '' for url: '' @ resp_url r))
      else if 500 \<le> status_code r \<and> status_code r < 600 then
        Inl (Exn HTTPError (py_str_nat (status_code r) @ '' Server Error: '' @ reason r
                             @ '' for url: '' @ resp_url r))
      else Inr ())"

section \<open>The page and the world\<close>

text \<open>
  What a run of the script leaves on the Streamlit page, in order: \<^verbatim>\<open>st.error\<close>
  messages, \<^verbatim>\<open>st.json\<close> documents, the \<^verbatim>\<open>st.markdown\<close> block of
  \<^verbatim>\<open>set_cors_headers\<close>, and the interactive page of the final \<^verbatim>\<open>else\<close> branch
  (taken as one element: its widgets are not modelled).
\<close>

datatype element = Error string | Json json | CorsScript | UiPage

record 's world =
  remote :: 's
  page :: "element list"

definition st_error :: "string \<Rightarrow> 's world \<Rightarrow> 's world" where
  "st_error msg w = w\<lparr>page := page w @ [Error msg]\<rparr>"

definition st_json :: "json \<Rightarrow> 's world \<Rightarrow> 's world" where
  "st_json j w = w\<lparr>page := page w @ [Json j]\<rparr>"

section \<open>database.py: SupabaseClient\<close>

text \<open>
  The client as \<^verbatim>\<open>__init__\<close> leaves it: the URL, the two keys, and the two sets of
  headers built from them. Reading the secrets is not modelled; the operations take
  the client as given.
\<close>

record client =
  url :: string
  key :: string
  service_key :: string
  headers :: "(string \<times> string) list"
  admin_headers :: "(string \<times> string) list"

text \<open>
  \<^verbatim>\<open>_make_request\<close>. An unsupported method raises \<^verbatim>\<open>ValueError\<close> inside the
  \<^verbatim>\<open>try\<close>; the handler catches \<^verbatim>\<open>RequestException\<close> only, reports it and
  re-raises; any other exception leaves the function unreported.
\<close>

definition request_failed :: "exn \<Rightarrow> 's world \<Rightarrow> (exn + response) \<times> 's world" where
  "request_failed e w =
     (if is_RequestException e
      then (Inl e, st_error (''Database request failed: '' @ exn_str e) w)
      else (Inl e, w))"

definition make_request ::
  "'s transport \<Rightarrow> client \<Rightarrow> string \<Rightarrow> string \<Rightarrow> json option \<Rightarrow> bool \<Rightarrow> 's world
     \<Rightarrow> (exn + response) \<times> 's world" where
  "make_request tr c method endpoint data use_admin w =
     (let u = url c @ ''/rest/v1/'' @ endpoint;
          hs = (if use_admin then admin_headers c else headers c);
          call =
            (if method = ''GET'' then
               Inr \<lparr>req_method = ''GET'', req_url = u, req_headers = hs, req_json = None\<rparr>
             else if method = ''POST'' then
               Inr \<lparr>req_method = ''POST'', req_url = u, req_headers = hs, req_json = data\<rparr>
             else if method = ''PATCH'' then
               Inr \<lparr>req_method = ''PATCH'', req_url = u, req_headers = hs, req_json = data\<rparr>
             else if method = ''DELETE'' then
               Inr \<lparr>req_method = ''DELETE'', req_url = u, req_headers = hs, req_json = None\<rparr>
             else Inl (Exn ValueError (''Unsupported method: '' @ method)))
      in case call of
           Inl e \<Rightarrow> request_failed e w
         | Inr rq \<Rightarrow>
            (case tr (remote w) rq of
               (Inl e, s') \<Rightarrow> request_failed e (w\<lparr>remote := s'\<rparr>)
             | (Inr resp, s') \<Rightarrow>
                (case raise_for_status resp of
                   Inl e \<Rightarrow> request_failed e (w\<lparr>remote := s'\<rparr>)
                 | Inr _ \<Rightarrow> (Inr resp, w\<lparr>remote := s'\<rparr>))))"

text \<open>
  The common shape \<^verbatim>\<open>response = self._make_request(...); x = response.json()\<close>
  inside a \<^verbatim>\<open>try\<close>: the decoded body, or the first exception raised.
\<close>

definition request_json ::
  "'s transport \<Rightarrow> client \<Rightarrow> string \<Rightarrow> string \<Rightarrow> json option \<Rightarrow> 's world
     \<Rightarrow> (exn + json) \<times> 's world" where
  "request_json tr c method endpoint data w =
     (case make_request tr c method endpoint data False w of
        (Inl e, w') \<Rightarrow> (Inl e, w')
      | (Inr resp, w') \<Rightarrow> (json_body resp, w'))"

definition get_all_tasks :: "'s transport \<Rightarrow> client \<Rightarrow> 's world \<Rightarrow> (exn + json) \<times> 's world" where
  "get_all_tasks tr c w =
     (case request_json tr c ''GET'' ''tasks?order=created_at.desc'' None w of
        (Inr tasks, w') \<Rightarrow> (Inr tasks, w')
      | (Inl e, w') \<Rightarrow> (Inr (JList []), st_error (''Failed to fetch tasks: '' @ exn_str e) w'))"

definition get_task :: "'s transport \<Rightarrow> client \<Rightarrow> int \<Rightarrow> 's world \<Rightarrow> (exn + json) \<times> 's world" where
  "get_task tr c task_id w =
     (let failed = (\<lambda>e w'. (Inr JNull,
            st_error (''Failed to fetch task '' @ py_str_int task_id @ '': '' @ exn_str e) w'))
      in case request_json tr c ''GET'' (''tasks?id=eq.'' @ py_str_int task_id) None w of
           (Inl e, w') \<Rightarrow> failed e w'
         | (Inr tasks, w') \<Rightarrow>
            (if truthy tasks then
               (case py_index0 tasks of Inl e \<Rightarrow> failed e w' | Inr t \<Rightarrow> (Inr t, w'))
             else (Inr JNull, w')))"

text \<open>\<^verbatim>\<open>x[0] if isinstance(x, list) else x\<close>, as create and update end.\<close>

fun first_if_list :: "json \<Rightarrow> exn + json" where
  "first_if_list (JList xs) = py_index0 (JList xs)"
| "first_if_list j = Inr j"

definition create_task ::
  "'s transport \<Rightarrow> client \<Rightarrow> string \<Rightarrow> string \<Rightarrow> 's world \<Rightarrow> (exn + json) \<times> 's world" where
  "create_task tr c title description w =
     (let data = JObj [(''title'', JStr title), (''description'', JStr description),
                       (''completed'', JBool False)];
          failed = (\<lambda>e w'. (Inl e, st_error (''Failed to create task: '' @ exn_str e) w'))
      in case request_json tr c ''POST'' ''tasks'' (Some data) w of
           (Inl e, w') \<Rightarrow> failed e w'
         | (Inr created_task, w') \<Rightarrow>
            (case first_if_list created_task of
               Inl e \<Rightarrow> failed e w'
             | Inr t \<Rightarrow> (Inr t, w')))"

definition update_task ::
  "'s transport \<Rightarrow> client \<Rightarrow> int \<Rightarrow> string \<Rightarrow> string \<Rightarrow> bool \<Rightarrow> 's world
     \<Rightarrow> (exn + json) \<times> 's world" where
  "update_task tr c task_id title description completed w =
     (let data = JObj [(''title'', JStr title), (''description'', JStr description),
                       (''completed'', JBool completed)];
          failed = (\<lambda>e w'. (Inl e,
            st_error (''Failed to update task '' @ py_str_int task_id @ '': '' @ exn_str e) w'))
      in case request_json tr c ''PATCH'' (''tasks?id=eq.'' @ py_str_int task_id) (Some data) w of
           (Inl e, w') \<Rightarrow> failed e w'
         | (Inr updated_task, w') \<Rightarrow>
            (case first_if_list updated_task of
               Inl e \<Rightarrow> failed e w'
             | Inr t \<Rightarrow> (Inr t, w')))"

definition delete_task :: "'s transport \<Rightarrow> client \<Rightarrow> int \<Rightarrow> 's world \<Rightarrow> (exn + bool) \<times> 's world" where
  "delete_task tr c task_id w =
     (case make_request tr c ''DELETE'' (''tasks?id=eq.'' @ py_str_int task_id) None False w of
        (Inr resp, w') \<Rightarrow> (Inr True, w')
      | (Inl e, w') \<Rightarrow>
          (Inr False,
           st_error (''Failed to delete task '' @ py_str_int task_id @ '': '' @ exn_str e) w'))"

record task_stats =
  total :: int
  completed :: int
  pending :: int
  completion_rate :: rat

definition zero_stats :: task_stats where
  "zero_stats = \<lparr>total = 0, completed = 0, pending = 0, completion_rate = 0\<rparr>"

text \<open>
  The comprehension \<^verbatim>\<open>[task for task in tasks if task.get('completed', False)]\<close>
  over the elements: it keeps an element whose \<^verbatim>\<open>completed\<close> entry is true in
  Python's sense, and stops at the first element that has no \<^verbatim>\<open>get\<close>.
\<close>

fun completed_of :: "json list \<Rightarrow> exn + json list" where
  "completed_of [] = Inr []"
| "completed_of (task # ts) =
     (case py_get task ''completed'' (JBool False) of
        Inl e \<Rightarrow> Inl e
      | Inr v \<Rightarrow>
         (case completed_of ts of
            Inl e \<Rightarrow> Inl e
          | Inr r \<Rightarrow> Inr (if truthy v then task # r else r)))"

text \<open>
  The body of the \<^verbatim>\<open>try\<close> of \<^verbatim>\<open>get_task_stats\<close> after the tasks are fetched.
  \<^verbatim>\<open>completed / total * 100\<close> is computed in floating point: the quotient is
  rounded to a double, and so is its product with 100.
\<close>

definition compute_stats :: "json \<Rightarrow> exn + task_stats" where
  "compute_stats tasks =
     (case py_len tasks of
        Inl e \<Rightarrow> Inl e
      | Inr n \<Rightarrow>
         (case py_iter tasks of
            Inl e \<Rightarrow> Inl e
          | Inr ts \<Rightarrow>
             (case completed_of ts of
                Inl e \<Rightarrow> Inl e
              | Inr done \<Rightarrow>
                 (let k = int (length done); p = n - k in
                  Inr \<lparr>total = n, completed = k, pending = p,
                       completion_rate =
                         (if n > 0 then binary64 (binary64 (of_int k / of_int n) * 100) else 0)\<rparr>))))"

definition get_task_stats ::
  "'s transport \<Rightarrow> client \<Rightarrow> 's world \<Rightarrow> (exn + task_stats) \<times> 's world" where
  "get_task_stats tr c w =
     (let failed = (\<lambda>e w'. (Inr zero_stats,
            st_error (''Failed to get task statistics: '' @ exn_str e) w'))
      in case get_all_tasks tr c w of
           (Inl e, w') \<Rightarrow> failed e w'
         | (Inr tasks, w') \<Rightarrow>
            (case compute_stats tasks of
               Inl e \<Rightarrow> failed e w'
             | Inr st \<Rightarrow> (Inr st, w')))"

definition search_endpoint :: "string \<Rightarrow> string" where
  "search_endpoint query =
     ''tasks?or=(title.ilike.*'' @ query @ ''*,description.ilike.*'' @ query
       @ ''*)&order=created_at.desc''"

definition search_tasks ::
  "'s transport \<Rightarrow> client \<Rightarrow> string \<Rightarrow> 's world \<Rightarrow> (exn + json) \<times> 's world" where
  "search_tasks tr c query w =
     (case request_json tr c ''GET'' (search_endpoint query) None w of
        (Inr tasks, w') \<Rightarrow> (Inr tasks, w')
      | (Inl e, w') \<Rightarrow> (Inr (JList []), st_error (''Failed to search tasks: '' @ exn_str e) w'))"

definition test_connection :: "'s transport \<Rightarrow> client \<Rightarrow> 's world \<Rightarrow> (exn + bool) \<times> 's world" where
  "test_connection tr c w =
     (case make_request tr c ''GET'' ''tasks?limit=1'' None False w of
        (Inr resp, w') \<Rightarrow> (Inr True, w')
      | (Inl e, w') \<Rightarrow>
          (Inr False, st_error (''Database connection test failed: '' @ exn_str e) w'))"

section \<open>streamlit_app.py: the script\<close>

text \<open>
  \<^verbatim>\<open>st.experimental_get_query_params()\<close>: a dict from a parameter's name to the list
  of its values.
\<close>

type_synonym query_params = "string \<rightharpoonup> string list"

text \<open>
  \<^verbatim>\<open>query_params.get(k, [d])[0]\<close>, with \<^verbatim>\<open>d\<close> a string or \<^verbatim>\<open>None\<close>: the first value
  of the parameter, the default when the parameter is absent, an \<^verbatim>\<open>IndexError\<close>
  on an empty list of values.
\<close>

definition param0 :: "query_params \<Rightarrow> string \<Rightarrow> string option \<Rightarrow> exn + string option" where
  "param0 qp k d =
     (case qp k of
        None \<Rightarrow> Inr d
      | Some [] \<Rightarrow> Inl (Exn IndexError ''list index out of range'')
      | Some (v # vs) \<Rightarrow> Inr (Some v))"

text \<open>\<^verbatim>\<open>if x\<close> for a string or \<^verbatim>\<open>None\<close>.\<close>

fun str_truthy :: "string option \<Rightarrow> bool" where
  "str_truthy None = False"
| "str_truthy (Some s) = (s \<noteq> [])"

text \<open>\<^verbatim>\<open>str.lower()\<close>, on the ASCII letters.\<close>

definition char_lower :: "char \<Rightarrow> char" where
  "char_lower ch =
     (let n = (of_char ch :: nat) in if 65 \<le> n \<and> n \<le> 90 then char_of (n + 32) else ch)"

definition py_lower :: "string \<Rightarrow> string" where
  "py_lower s = map char_lower s"

text \<open>
  \<^verbatim>\<open>int(s)\<close>, the builtin, is a parameter of the script: \<open>to_int s\<close> is the integer
  \<^verbatim>\<open>int(s)\<close> returns or the exception it raises. What the script does with an id
  is then stated for whatever \<^verbatim>\<open>int\<close> does with it.

  \<open>py_int\<close> is \<^verbatim>\<open>int(s)\<close> of CPython 3.11 on an ASCII string, used to run the
  script on concrete requests: leading whitespace (codes 9 to 13 and 32), an optional
  sign, decimal digits with single underscores between them, trailing whitespace. More
  than 4300 digits are refused (the default of \<^verbatim>\<open>sys.set_int_max_str_digits\<close>),
  and this is checked before what follows the digits. The message of an invalid
  literal shows the first 200 characters of \<^verbatim>\<open>repr(s)\<close>. Bytes above 127 are
  outside its scope: \<open>py_int\<close> refuses them, where Python reads Unicode digits and
  spaces.
\<close>

definition py_isspace :: "char \<Rightarrow> bool" where
  "py_isspace ch = (let n = (of_char ch :: nat) in (9 \<le> n \<and> n \<le> 13) \<or> n = 32)"

definition is_digit :: "char \<Rightarrow> bool" where
  "is_digit ch = (let n = (of_char ch :: nat) in 48 \<le> n \<and> n \<le> 57)"

definition digit_val :: "char \<Rightarrow> nat" where
  "digit_val ch = of_char ch - 48"

definition hex_char :: "nat \<Rightarrow> char" where
  "hex_char n = ''0123456789abcdef'' ! (n mod 16)"

text \<open>
  \<^verbatim>\<open>repr(s)\<close> of an ASCII string: double quotes when the string has a single quote
  and no double quote, single quotes otherwise; the quote and the backslash escaped,
  control characters as \<^verbatim>\<open>\t\<close>, \<^verbatim>\<open>\n\<close>, \<^verbatim>\<open>\r\<close> or \<^verbatim>\<open>\xhh\<close>.
\<close>

definition repr_char :: "char \<Rightarrow> char \<Rightarrow> string" where
  "repr_char q ch =
     (let n = (of_char ch :: nat) in
      if ch = q \<or> ch = CHR 0x5C then [CHR 0x5C, ch]
      else if n = 9 then [CHR 0x5C, CHR ''t'']
      else if n = 10 then [CHR 0x5C, CHR ''n'']
      else if n = 13 then [CHR 0x5C, CHR ''r'']
      else if n < 32 \<or> n = 127 then [CHR 0x5C, CHR ''x'', hex_char (n div 16), hex_char n]
      else [ch])"

definition py_repr :: "string \<Rightarrow> string" where
  "py_repr s =
     (let q = (if CHR 0x27 \<in> set s \<and> CHR 0x22 \<notin> set s then CHR 0x22 else CHR 0x27)
      in [q] @ concat (map (repr_char q) s) @ [q])"

definition invalid_literal :: "string \<Rightarrow> exn" where
  "invalid_literal s =
     Exn ValueError (''invalid literal for int() with base 10: '' @ take 200 (py_repr s))"

definition too_many_digits :: "nat \<Rightarrow> exn" where
  "too_many_digits n =
     Exn ValueError (''Exceeds the limit (4300 digits) for integer string conversion: value has ''
       @ py_str_nat n @ '' digits; use sys.set_int_max_str_digits() to increase the limit'')"

text \<open>
  The scan over digits and underscores: the number of digits, their value and the
  rest of the string; \<open>None\<close> for two underscores in a row or an underscore last.
\<close>

fun scan_digits :: "char \<Rightarrow> nat \<Rightarrow> int \<Rightarrow> string \<Rightarrow> (nat \<times> int \<times> string) option" where
  "scan_digits prev cnt acc [] = (if prev = CHR ''_'' then None else Some (cnt, acc, []))"
| "scan_digits prev cnt acc (ch # cs) =
     (if is_digit ch then scan_digits ch (Suc cnt) (acc * 10 + int (digit_val ch)) cs
      else if ch = CHR ''_'' then (if prev = CHR ''_'' then None else scan_digits ch cnt acc cs)
      else if prev = CHR ''_'' then None
      else Some (cnt, acc, ch # cs))"

definition py_int :: "string \<Rightarrow> exn + int" where
  "py_int s =
     (let t = dropWhile py_isspace s;
          neg = (case t of ch # r \<Rightarrow> ch = CHR ''-'' | [] \<Rightarrow> False);
          u = (case t of ch # r \<Rightarrow> if ch = CHR ''-'' \<or> ch = CHR ''+'' then r else t | [] \<Rightarrow> t)
      in if (case u of ch # r \<Rightarrow> ch = CHR ''_'' | [] \<Rightarrow> False) then Inl (invalid_literal s)
         else
           (case scan_digits (CHR 0x00) 0 0 u of
              None \<Rightarrow> Inl (invalid_literal s)
            | Some (cnt, n, rest) \<Rightarrow>
                if 4300 < cnt then Inl (too_many_digits cnt)
                else if cnt = 0 then Inl (invalid_literal s)
                else if dropWhile py_isspace rest \<noteq> [] then Inl (invalid_literal s)
                else Inr (if neg then - n else n)))"

text \<open>
  How a run of the script ends: \<^verbatim>\<open>st.stop()\<close> was called (it raises a
  \<^verbatim>\<open>BaseException\<close> that \<^verbatim>\<open>except Exception\<close> does not catch, so it ends the run
  from inside a \<^verbatim>\<open>try\<close> as well), the script ran to its last line, or an exception
  escaped.
\<close>

datatype outcome = Stopped | Completed | Crashed exn

definition envelope_error :: "string \<Rightarrow> json" where
  "envelope_error msg = JObj [(''status'', JStr ''error''), (''message'', JStr msg)]"

text \<open>The handler of every route: \<^verbatim>\<open>st.json({"status": "error", "message": str(e)}); st.stop()\<close>.\<close>

definition api_except :: "exn \<Rightarrow> 's world \<Rightarrow> outcome \<times> 's world" where
  "api_except e w = (Stopped, st_json (envelope_error (exn_str e)) w)"

definition route_tasks :: "'s transport \<Rightarrow> client \<Rightarrow> 's world \<Rightarrow> outcome \<times> 's world" where
  "route_tasks tr c w =
     (case get_all_tasks tr c w of
        (Inl e, w') \<Rightarrow> api_except e w'
      | (Inr tasks, w') \<Rightarrow>
          (Stopped, st_json (JObj [(''status'', JStr ''success''), (''data'', tasks)]) w'))"

definition route_task ::
  "'s transport \<Rightarrow> (string \<Rightarrow> exn + int) \<Rightarrow> client \<Rightarrow> query_params \<Rightarrow> 's world \<Rightarrow> outcome \<times> 's world" where
  "route_task tr to_int c qp w =
     (case param0 qp ''id'' None of
        Inl e \<Rightarrow> api_except e w
      | Inr task_id \<Rightarrow>
         (case task_id of
            Some s \<Rightarrow>
              (if str_truthy task_id then
                 (case to_int s of
                    Inl e \<Rightarrow> api_except e w
                  | Inr i \<Rightarrow>
                     (case get_task tr c i w of
                        (Inl e, w') \<Rightarrow> api_except e w'
                      | (Inr task, w') \<Rightarrow>
                          (Stopped,
                           st_json (JObj [(''status'', JStr ''success''), (''data'', task)]) w')))
               else (Stopped, st_json (envelope_error ''Task ID required'') w))
          | None \<Rightarrow> (Stopped, st_json (envelope_error ''Task ID required'') w)))"

definition route_create_task ::
  "'s transport \<Rightarrow> client \<Rightarrow> query_params \<Rightarrow> 's world \<Rightarrow> outcome \<times> 's world" where
  "route_create_task tr c qp w =
     (case param0 qp ''title'' None of
        Inl e \<Rightarrow> api_except e w
      | Inr title \<Rightarrow>
         (case param0 qp ''description'' (Some []) of
            Inl e \<Rightarrow> api_except e w
          | Inr description \<Rightarrow>
             (case (title, description) of
                (Some t, Some d) \<Rightarrow>
                  (if str_truthy title then
                     (case create_task tr c t d w of
                        (Inl e, w') \<Rightarrow> api_except e w'
                      | (Inr task, w') \<Rightarrow>
                          (Stopped,
                           st_json (JObj [(''status'', JStr ''success''), (''data'', task),
                                          (''message'', JStr ''Task created successfully'')]) w'))
                   else (Stopped, st_json (envelope_error ''Title is required'') w))
              | _ \<Rightarrow> (Stopped, st_json (envelope_error ''Title is required'') w))))"

text \<open>
  Line 105: \<^verbatim>\<open>query_params.get('completed', ['false'])[0].lower() == 'true'\<close>.
\<close>

definition completed_param :: "query_params \<Rightarrow> exn + bool" where
  "completed_param qp =
     (case param0 qp ''completed'' (Some ''false'') of
        Inl e \<Rightarrow> Inl e
      | Inr None \<Rightarrow> Inl (Exn AttributeError (quoted ''NoneType'' @ '' object has no attribute '' @ quoted ''lower''))
      | Inr (Some v) \<Rightarrow> Inr (py_lower v = ''true''))"

definition route_update_task ::
  "'s transport \<Rightarrow> (string \<Rightarrow> exn + int) \<Rightarrow> client \<Rightarrow> query_params \<Rightarrow> 's world \<Rightarrow> outcome \<times> 's world" where
  "route_update_task tr to_int c qp w =
     (case param0 qp ''id'' None of
        Inl e \<Rightarrow> api_except e w
      | Inr task_id \<Rightarrow>
     (case param0 qp ''title'' None of
        Inl e \<Rightarrow> api_except e w
      | Inr title \<Rightarrow>
     (case param0 qp ''description'' (Some []) of
        Inl e \<Rightarrow> api_except e w
      | Inr description \<Rightarrow>
     (case completed_param qp of
        Inl e \<Rightarrow> api_except e w
      | Inr completed' \<Rightarrow>
         (case (task_id, title, description) of
            (Some s, Some t, Some d) \<Rightarrow>
              (if str_truthy task_id \<and> str_truthy title then
                 (case to_int s of
                    Inl e \<Rightarrow> api_except e w
                  | Inr i \<Rightarrow>
                     (case update_task tr c i t d completed' w of
                        (Inl e, w') \<Rightarrow> api_except e w'
                      | (Inr task, w') \<Rightarrow>
                          (Stopped,
                           st_json (JObj [(''status'', JStr ''success''), (''data'', task),
                                          (''message'', JStr ''Task updated successfully'')]) w')))
               else (Stopped, st_json (envelope_error ''Task ID and title are required'') w))
          | _ \<Rightarrow> (Stopped, st_json (envelope_error ''Task ID and title are required'') w))))))"

definition route_delete_task ::
  "'s transport \<Rightarrow> (string \<Rightarrow> exn + int) \<Rightarrow> client \<Rightarrow> query_params \<Rightarrow> 's world \<Rightarrow> outcome \<times> 's world" where
  "route_delete_task tr to_int c qp w =
     (case param0 qp ''id'' None of
        Inl e \<Rightarrow> api_except e w
      | Inr task_id \<Rightarrow>
         (case task_id of
            Some s \<Rightarrow>
              (if str_truthy task_id then
                 (case to_int s of
                    Inl e \<Rightarrow> api_except e w
                  | Inr i \<Rightarrow>
                     (case delete_task tr c i w of
                        (Inl e, w') \<Rightarrow> api_except e w'
                      | (Inr success, w') \<Rightarrow>
                          (Stopped,
                           st_json (if success
                                    then JObj [(''status'', JStr ''success''),
                                               (''message'', JStr ''Task deleted successfully'')]
                                    else JObj [(''status'', JStr ''error''),
                                               (''message'', JStr ''Failed to delete task'')]) w')))
               else (Stopped, st_json (envelope_error ''Task ID required'') w))
          | None \<Rightarrow> (Stopped, st_json (envelope_error ''Task ID required'') w)))"

text \<open>\<open>now\<close> is \<^verbatim>\<open>pd.Timestamp.now().isoformat()\<close>, read from the clock.\<close>

definition route_health :: "string \<Rightarrow> 's world \<Rightarrow> outcome \<times> 's world" where
  "route_health now w =
     (Stopped, st_json (JObj [(''status'', JStr ''success''), (''message'', JStr ''API is running''),
                              (''timestamp'', JStr now)]) w)"

definition set_cors_headers :: "'s world \<Rightarrow> 's world" where
  "set_cors_headers w = w\<lparr>page := page w @ [CorsScript]\<rparr>"

text \<open>
  The script from line 38 on, with the client already built. The chain of
  \<^verbatim>\<open>if\<close>/\<^verbatim>\<open>elif\<close> under \<^verbatim>\<open>if 'api' in query_params\<close> has no \<^verbatim>\<open>else\<close>; the
  \<^verbatim>\<open>else\<close> of line 156 belongs to the outer \<^verbatim>\<open>if\<close>. That branch, the interactive
  page with its widgets and its own fetches of the tasks, is outside the model: it
  stands as the one element \<open>UiPage\<close>, and nothing is stated about a run that takes it.
\<close>

definition script ::
  "'s transport \<Rightarrow> (string \<Rightarrow> exn + int) \<Rightarrow> client \<Rightarrow> string \<Rightarrow> query_params \<Rightarrow> 's world \<Rightarrow> outcome \<times> 's world" where
  "script tr to_int c now qp w =
     (case qp ''api'' of
        Some vs \<Rightarrow>
          (let w1 = set_cors_headers w in
           case vs of
             [] \<Rightarrow> (Crashed (Exn IndexError ''list index out of range''), w1)
           | api_endpoint # _ \<Rightarrow>
              (if api_endpoint = ''tasks'' then route_tasks tr c w1
               else if api_endpoint = ''task'' then route_task tr to_int c qp w1
               else if api_endpoint = ''create_task'' then route_create_task tr c qp w1
               else if api_endpoint = ''update_task'' then route_update_task tr to_int c qp w1
               else if api_endpoint = ''delete_task'' then route_delete_task tr to_int c qp w1
               else if api_endpoint = ''health'' then route_health now w1
               else (Completed, w1)))
      | None \<Rightarrow> (Completed, w\<lparr>page := page w @ [UiPage]\<rparr>))"

section \<open>Vocabulary of the statements\<close>

text \<open>
  The request that \<^verbatim>\<open>_make_request\<close> sends for a supported method with the standard
  headers, and the result of sending it: the call of the requests library followed by
  \<^verbatim>\<open>raise_for_status()\<close> (\<open>call_result\<close>), and followed by \<^verbatim>\<open>json()\<close> as well
  (\<open>call_json\<close>). A remote call fails when \<open>call_result\<close> is an exception: one
  raised by the transport, or the \<^verbatim>\<open>HTTPError\<close> of a 4xx or 5xx status.
\<close>

definition api_request :: "client \<Rightarrow> string \<Rightarrow> string \<Rightarrow> json option \<Rightarrow> http_request" where
  "api_request c method endpoint data =
     \<lparr>req_method = method, req_url = url c @ ''/rest/v1/'' @ endpoint, req_headers = headers c,
      req_json = (if method = ''POST'' \<or> method = ''PATCH'' then data else None)\<rparr>"

definition call_result :: "'s transport \<Rightarrow> 's \<Rightarrow> http_request \<Rightarrow> exn + response" where
  "call_result tr s rq =
     (case fst (tr s rq) of
        Inl e \<Rightarrow> Inl e
      | Inr resp \<Rightarrow> (case raise_for_status resp of Inl e \<Rightarrow> Inl e | Inr _ \<Rightarrow> Inr resp))"

definition call_json :: "'s transport \<Rightarrow> 's \<Rightarrow> http_request \<Rightarrow> exn + json" where
  "call_json tr s rq =
     (case call_result tr s rq of Inl e \<Rightarrow> Inl e | Inr resp \<Rightarrow> json_body resp)"

definition supported :: "string \<Rightarrow> bool" where
  "supported m = (m = ''GET'' \<or> m = ''POST'' \<or> m = ''PATCH'' \<or> m = ''DELETE'')"

text \<open>
  Concrete surroundings for evaluating the code: a client, a remote side that is
  unreachable, and one that answers every request with a fixed status and body and
  keeps the requests it received. The conversion of an id is \<open>py_int\<close> there.
\<close>

definition demo_client :: client where
  "demo_client = \<lparr>url = ''https://db.example'', key = ''anon'', service_key = ''service'',
     headers = [(''apikey'', ''anon''), (''Authorization'', ''Bearer anon''),
                (''Content-Type'', ''application/json''), (''Prefer'', ''return=representation'')],
     admin_headers = [(''apikey'', ''service''), (''Authorization'', ''Bearer service''),
                (''Content-Type'', ''application/json''), (''Prefer'', ''return=representation'')]\<rparr>"

definition down :: "http_request list transport" where
  "down s rq = (Inl (Exn ConnectionError ''connection refused''), s)"

definition answers :: "nat \<Rightarrow> json \<Rightarrow> http_request list transport" where
  "answers code body s rq =
     (Inr \<lparr>status_code = code, reason = ''-'', resp_url = req_url rq, json_body = Inr body\<rparr>,
      s @ [rq])"

definition w0 :: "http_request list world" where
  "w0 = \<lparr>remote = [], page = []\<rparr>"



definition list_request :: "client \<Rightarrow> http_request" where
  "list_request c = api_request c ''GET'' ''tasks?order=created_at.desc'' None"

text \<open>
  The sixteen spellings of \<^verbatim>\<open>true\<close> in upper and lower case: what equality with
  \<^verbatim>\<open>'true'\<close> up to case means, stated without \<^verbatim>\<open>lower()\<close>.
\<close>

definition spells_true :: "string \<Rightarrow> bool" where
  "spells_true v =
     (case v of
        [a, b, c, d] \<Rightarrow>
          (a = CHR ''t'' \<or> a = CHR ''T'') \<and> (b = CHR ''r'' \<or> b = CHR ''R'')
          \<and> (c = CHR ''u'' \<or> c = CHR ''U'') \<and> (d = CHR ''e'' \<or> d = CHR ''E'')
      | _ \<Rightarrow> False)"

text \<open>
  The requests of the single-task lookup and of the search, and the property the
  specification gives a task record: a \<^verbatim>\<open>completed\<close> entry that is a boolean.
\<close>

fun has_bool_completed :: "json \<Rightarrow> bool" where
  "has_bool_completed (JObj kvs) =
     (case map_of kvs ''completed'' of Some (JBool b) \<Rightarrow> True | _ \<Rightarrow> False)"
| "has_bool_completed _ = False"

definition get_request :: "client \<Rightarrow> int \<Rightarrow> http_request" where
  "get_request c task_id = api_request c ''GET'' (''tasks?id=eq.'' @ py_str_int task_id) None"

definition search_request :: "client \<Rightarrow> string \<Rightarrow> http_request" where
  "search_request c query = api_request c ''GET'' (search_endpoint query) None"

text \<open>
  A response envelope: a JSON object whose \<^verbatim>\<open>status\<close> is \<^verbatim>\<open>success\<close> or
  \<^verbatim>\<open>error\<close>. A run has answered when it ended by \<^verbatim>\<open>st.stop()\<close> and the last
  element it put on the page is an envelope.
\<close>

definition is_envelope :: "json \<Rightarrow> bool" where
  "is_envelope j =
     (case j of
        JObj kvs \<Rightarrow>
          (case map_of kvs ''status'' of
             Some (JStr s) \<Rightarrow> s = ''success'' \<or> s = ''error''
           | _ \<Rightarrow> False)
      | _ \<Rightarrow> False)"

definition answered :: "outcome \<times> 's world \<Rightarrow> bool" where
  "answered r =
     (fst r = Stopped \<and>
      (case rev (page (snd r)) of Json env # _ \<Rightarrow> is_envelope env | _ \<Rightarrow> False))"

section \<open>The remote call\<close>

declare py_str_nat.simps [simp del]

lemma make_request_eq:
  assumes "supported m"
  shows "make_request tr c m ep data False w =
     (case tr (remote w) (api_request c m ep data) of
        (Inl e, s') \<Rightarrow> request_failed e (w\<lparr>remote := s'\<rparr>)
      | (Inr resp, s') \<Rightarrow>
          (case raise_for_status resp of
             Inl e \<Rightarrow> request_failed e (w\<lparr>remote := s'\<rparr>)
           | Inr _ \<Rightarrow> (Inr resp, w\<lparr>remote := s'\<rparr>)))"
proof -
  from assms consider "m = ''GET''" | "m = ''POST''" | "m = ''PATCH''" | "m = ''DELETE''"
    unfolding supported_def by blast
  then show ?thesis
  proof cases
    case 1 then show ?thesis by (simp add: make_request_def api_request_def)
  next
    case 2 then show ?thesis by (simp add: make_request_def api_request_def)
  next
    case 3 then show ?thesis by (simp add: make_request_def api_request_def)
  next
    case 4 then show ?thesis by (simp add: make_request_def api_request_def)
  qed
qed

lemma fst_request_failed: "fst (request_failed e w) = Inl e"
  by (simp add: request_failed_def)

lemma remote_request_failed: "remote (snd (request_failed e w)) = remote w"
  by (simp add: request_failed_def st_error_def)

lemma page_request_failed:
  "page (snd (request_failed e w)) =
     page w @ (if is_RequestException e then [Error (''Database request failed: '' @ exn_str e)] else [])"
  by (simp add: request_failed_def st_error_def)

lemma make_request_fst:
  "supported m \<Longrightarrow>
   fst (make_request tr c m ep data False w) = call_result tr (remote w) (api_request c m ep data)"
  by (simp add: make_request_eq call_result_def fst_request_failed split: prod.splits sum.splits)

lemma make_request_remote:
  "supported m \<Longrightarrow>
   remote (snd (make_request tr c m ep data False w)) = snd (tr (remote w) (api_request c m ep data))"
  by (simp add: make_request_eq remote_request_failed split: prod.splits sum.splits)

lemma make_request_page:
  "supported m \<Longrightarrow>
   page (snd (make_request tr c m ep data False w)) =
     page w @ (case call_result tr (remote w) (api_request c m ep data) of
                 Inl e \<Rightarrow> if is_RequestException e
                          then [Error (''Database request failed: '' @ exn_str e)] else []
               | Inr _ \<Rightarrow> [])"
  by (simp add: make_request_eq call_result_def page_request_failed split: prod.splits sum.splits)

lemma supported_simps [simp]:
  "supported ''GET''" "supported ''POST''" "supported ''PATCH''" "supported ''DELETE''"
  by (simp_all add: supported_def)

lemma request_json_fst:
  "supported m \<Longrightarrow>
   fst (request_json tr c m ep data w) = call_json tr (remote w) (api_request c m ep data)"
  using make_request_fst [of m tr c ep data w]
  by (cases "make_request tr c m ep data False w")
     (auto simp: request_json_def call_json_def split: sum.splits)

lemma request_json_remote:
  "supported m \<Longrightarrow>
   remote (snd (request_json tr c m ep data w)) = snd (tr (remote w) (api_request c m ep data))"
  using make_request_remote [of m tr c ep data w]
  by (cases "make_request tr c m ep data False w")
     (auto simp: request_json_def split: sum.splits)

lemma request_json_page:
  "supported m \<Longrightarrow>
   page (snd (request_json tr c m ep data w)) =
     page w @ (case call_result tr (remote w) (api_request c m ep data) of
                 Inl e \<Rightarrow> if is_RequestException e
                          then [Error (''Database request failed: '' @ exn_str e)] else []
               | Inr _ \<Rightarrow> [])"
  using make_request_page [of m tr c ep data w] make_request_fst [of m tr c ep data w]
  by (cases "make_request tr c m ep data False w")
     (auto simp: request_json_def split: sum.splits)

lemma call_result_Inl_json: "call_result tr s rq = Inl e \<Longrightarrow> call_json tr s rq = Inl e"
  by (simp add: call_json_def)

lemma get_all_tasks_fst:
  "fst (get_all_tasks tr c w) =
     Inr (case call_json tr (remote w) (api_request c ''GET'' ''tasks?order=created_at.desc'' None) of
            Inl e \<Rightarrow> JList [] | Inr tasks \<Rightarrow> tasks)"
  using request_json_fst [of "''GET''" tr c "''tasks?order=created_at.desc''" None w]
  by (cases "request_json tr c ''GET'' ''tasks?order=created_at.desc'' None w")
     (auto simp: get_all_tasks_def split: sum.splits)

lemma search_tasks_fst:
  "fst (search_tasks tr c q w) =
     Inr (case call_json tr (remote w) (api_request c ''GET'' (search_endpoint q) None) of
            Inl e \<Rightarrow> JList [] | Inr tasks \<Rightarrow> tasks)"
  using request_json_fst [of "''GET''" tr c "search_endpoint q" None w]
  by (cases "request_json tr c ''GET'' (search_endpoint q) None w")
     (auto simp: search_tasks_def split: sum.splits)

lemma compute_stats_empty: "compute_stats (JList []) = Inr zero_stats"
  by (simp add: compute_stats_def zero_stats_def)

lemma get_task_stats_fst:
  "fst (get_task_stats tr c w) =
     Inr (case fst (get_all_tasks tr c w) of
            Inl e \<Rightarrow> zero_stats
          | Inr tasks \<Rightarrow> (case compute_stats tasks of Inl e \<Rightarrow> zero_stats | Inr st \<Rightarrow> st))"
  by (cases "get_all_tasks tr c w") (auto simp: get_task_stats_def split: sum.splits)

lemma create_task_fst:
  "fst (create_task tr c t d w) =
     (case call_json tr (remote w) (api_request c ''POST'' ''tasks''
             (Some (JObj [(''title'', JStr t), (''description'', JStr d), (''completed'', JBool False)]))) of
        Inl e \<Rightarrow> Inl e
      | Inr created \<Rightarrow> first_if_list created)"
  using request_json_fst [of "''POST''" tr c "''tasks''"
      "Some (JObj [(''title'', JStr t), (''description'', JStr d), (''completed'', JBool False)])" w]
  by (cases "request_json tr c ''POST'' ''tasks''
        (Some (JObj [(''title'', JStr t), (''description'', JStr d), (''completed'', JBool False)])) w")
     (auto simp: create_task_def split: sum.splits)

lemma update_task_fst:
  "fst (update_task tr c i t d b w) =
     (case call_json tr (remote w) (api_request c ''PATCH'' (''tasks?id=eq.'' @ py_str_int i)
             (Some (JObj [(''title'', JStr t), (''description'', JStr d), (''completed'', JBool b)]))) of
        Inl e \<Rightarrow> Inl e
      | Inr updated \<Rightarrow> first_if_list updated)"
  using request_json_fst [of "''PATCH''" tr c "''tasks?id=eq.'' @ py_str_int i"
      "Some (JObj [(''title'', JStr t), (''description'', JStr d), (''completed'', JBool b)])" w]
  by (cases "request_json tr c ''PATCH'' (''tasks?id=eq.'' @ py_str_int i)
        (Some (JObj [(''title'', JStr t), (''description'', JStr d), (''completed'', JBool b)])) w")
     (auto simp: update_task_def split: sum.splits)

lemma delete_task_fst:
  "fst (delete_task tr c i w) =
     Inr (case call_result tr (remote w) (api_request c ''DELETE'' (''tasks?id=eq.'' @ py_str_int i) None) of
            Inl e \<Rightarrow> False | Inr resp \<Rightarrow> True)"
  using make_request_fst [of "''DELETE''" tr c "''tasks?id=eq.'' @ py_str_int i" None w]
  by (cases "make_request tr c ''DELETE'' (''tasks?id=eq.'' @ py_str_int i) None False w")
     (auto simp: delete_task_def split: sum.splits)

lemma call_result_down: "call_result down s rq = Inl (Exn ConnectionError ''connection refused'')"
  by (simp add: call_result_def down_def)


subsection \<open>Rounding to a double\<close>











lemma zero_stats_sound:
  "total zero_stats = completed zero_stats + pending zero_stats" "completion_rate zero_stats = 0"
  "total zero_stats = 0"
  by (simp_all add: zero_stats_def)

lemma call_json_answers:
  "code < 400 \<Longrightarrow> call_json (answers code body) s rq = Inr body"
  by (simp add: call_json_def call_result_def answers_def raise_for_status_def)

lemma char_lower_eq_iff:
  assumes "97 \<le> (of_char x :: nat)" "(of_char x :: nat) \<le> 122"
  shows "char_lower a = x \<longleftrightarrow> a = x \<or> a = char_of ((of_char x :: nat) - 32)"
proof (cases "65 \<le> (of_char a :: nat) \<and> (of_char a :: nat) \<le> 90")
  case True
  then have l: "char_lower a = char_of ((of_char a :: nat) + 32)"
    by (simp add: char_lower_def)
  have "a \<noteq> x" using True assms by auto
  moreover have "char_of ((of_char a :: nat) + 32) = x \<longleftrightarrow> a = char_of ((of_char x :: nat) - 32)"
  proof
    assume "char_of ((of_char a :: nat) + 32) = x"
    then have "(of_char x :: nat) = (of_char a + 32) mod 256"
      by (auto simp: of_char_of)
    with True have "(of_char x :: nat) = of_char a + 32" by simp
    then have "char_of ((of_char x :: nat) - 32) = char_of (of_char a :: nat)" by simp
    then show "a = char_of ((of_char x :: nat) - 32)" by simp
  next
    assume "a = char_of ((of_char x :: nat) - 32)"
    then have "(of_char a :: nat) = (of_char x - 32) mod 256" by (simp add: of_char_of)
    with assms have "(of_char a :: nat) + 32 = of_char x" by simp
    then show "char_of ((of_char a :: nat) + 32) = x" by simp
  qed
  ultimately show ?thesis using l by simp
next
  case False
  then have l: "char_lower a = a" by (auto simp: char_lower_def)
  have "a \<noteq> char_of ((of_char x :: nat) - 32)"
  proof
    assume "a = char_of ((of_char x :: nat) - 32)"
    then have "(of_char a :: nat) = (of_char x - 32) mod 256" by (simp add: of_char_of)
    with assms have "(of_char a :: nat) = of_char x - 32" by simp
    with assms False show False by auto
  qed
  with l show ?thesis by auto
qed

lemma upper_codes:
  "char_of (84 :: nat) = CHR ''T''" "char_of (82 :: nat) = CHR ''R''"
  "char_of (85 :: nat) = CHR ''U''" "char_of (69 :: nat) = CHR ''E''"
  using char_of_char [of "CHR ''T''", where ?'a = nat] char_of_char [of "CHR ''R''", where ?'a = nat]
        char_of_char [of "CHR ''U''", where ?'a = nat] char_of_char [of "CHR ''E''", where ?'a = nat]
  by simp_all

lemma char_lower_true:
  "char_lower a = CHR ''t'' \<longleftrightarrow> a = CHR ''t'' \<or> a = CHR ''T''"
  "char_lower a = CHR ''r'' \<longleftrightarrow> a = CHR ''r'' \<or> a = CHR ''R''"
  "char_lower a = CHR ''u'' \<longleftrightarrow> a = CHR ''u'' \<or> a = CHR ''U''"
  "char_lower a = CHR ''e'' \<longleftrightarrow> a = CHR ''e'' \<or> a = CHR ''E''"
  using char_lower_eq_iff [of "CHR ''t''" a] char_lower_eq_iff [of "CHR ''r''" a]
        char_lower_eq_iff [of "CHR ''u''" a] char_lower_eq_iff [of "CHR ''e''" a]
        upper_codes
  by simp_all

lemma py_lower_true: "py_lower v = ''true'' \<longleftrightarrow> spells_true v"
proof (cases v)
  case Nil then show ?thesis by (simp add: py_lower_def spells_true_def)
next
  case (Cons a v1)
  show ?thesis
  proof (cases v1)
    case Nil with Cons show ?thesis by (simp add: py_lower_def spells_true_def)
  next
    case (Cons b v2)
    note v1 = this
    show ?thesis
    proof (cases v2)
      case Nil with v1 \<open>v = a # v1\<close> show ?thesis by (simp add: py_lower_def spells_true_def)
    next
      case (Cons c v3)
      note v2 = this
      show ?thesis
      proof (cases v3)
        case Nil with v1 v2 \<open>v = a # v1\<close> show ?thesis by (simp add: py_lower_def spells_true_def)
      next
        case (Cons d v4)
        with v1 v2 \<open>v = a # v1\<close> show ?thesis
          by (cases v4) (simp_all add: py_lower_def spells_true_def char_lower_true)
      qed
    qed
  qed
qed

lemma completed_param_eq:
  "completed_param qp =
     (case qp ''completed'' of
        None \<Rightarrow> Inr False
      | Some [] \<Rightarrow> Inl (Exn IndexError ''list index out of range'')
      | Some (v # cs) \<Rightarrow> Inr (spells_true v))"
proof -
  have "py_lower ''false'' \<noteq> ''true''" by (simp add: py_lower_true spells_true_def)
  then show ?thesis
    by (simp add: completed_param_def param0_def py_lower_true split: option.splits list.splits)
qed


lemma emit_after_cors:
  "st_json j (set_cors_headers w) = w\<lparr>page := page w @ [CorsScript, Json j]\<rparr>"
  by (simp add: st_json_def set_cors_headers_def)

lemma api_except_after_cors:
  "api_except e (set_cors_headers w) =
     (Stopped, w\<lparr>page := page w @ [CorsScript, Json (envelope_error (exn_str e))]\<rparr>)"
  by (simp add: api_except_def emit_after_cors)

lemma remote_st_error: "remote (st_error m w) = remote w"
  by (simp add: st_error_def)

lemma remote_st_json: "remote (st_json j w) = remote w"
  by (simp add: st_json_def)

lemma update_task_remote:
  "remote (snd (update_task tr c i t d b w)) =
     snd (tr (remote w) (api_request c ''PATCH'' (''tasks?id=eq.'' @ py_str_int i)
            (Some (JObj [(''title'', JStr t), (''description'', JStr d), (''completed'', JBool b)]))))"
  using request_json_remote [of "''PATCH''" tr c "''tasks?id=eq.'' @ py_str_int i"
      "Some (JObj [(''title'', JStr t), (''description'', JStr d), (''completed'', JBool b)])" w]
  by (cases "request_json tr c ''PATCH'' (''tasks?id=eq.'' @ py_str_int i)
        (Some (JObj [(''title'', JStr t), (''description'', JStr d), (''completed'', JBool b)])) w")
     (auto simp: update_task_def remote_st_error split: sum.splits)

lemma route_update_task_calls:
  assumes "qp ''id'' = Some (s # ss)" "s \<noteq> []" "to_int s = Inr i"
    and "qp ''title'' = Some (t # ts)" "t \<noteq> []"
    and "param0 qp ''description'' (Some []) = Inr (Some d)" "completed_param qp = Inr flag"
  shows "fst (route_update_task tr to_int c qp w) = Stopped"
    and "remote (snd (route_update_task tr to_int c qp w)) = remote (snd (update_task tr c i t d flag w))"
proof -
  note s = assms(2)
  have i: "param0 qp ''id'' None = Inr (Some s)" and tt: "param0 qp ''title'' None = Inr (Some t)"
    using assms(1,4) by (simp_all add: param0_def)
  obtain r w' where u: "update_task tr c i t d flag w = (r, w')"
    by (cases "update_task tr c i t d flag w")
  from s i tt assms u show "fst (route_update_task tr to_int c qp w) = Stopped"
    by (cases r) (simp_all add: route_update_task_def api_except_def)
  from s i tt assms u
  show "remote (snd (route_update_task tr to_int c qp w)) = remote (snd (update_task tr c i t d flag w))"
    by (cases r) (simp_all add: route_update_task_def api_except_def remote_st_json)
qed

lemma py_int_12a: "py_int ''12a'' = Inl (invalid_literal ''12a'')"
  by code_simp

lemma py_int_5: "py_int ''5'' = Inr 5"
  by code_simp

lemma py_str_int_5: "py_str_int 5 = ''5''"
  by code_simp

lemma call_json_Inr_result:
  "call_json tr s rq = Inr j \<Longrightarrow> \<exists>resp. call_result tr s rq = Inr resp"
  by (cases "call_result tr s rq") (simp_all add: call_json_def)

lemma get_task_fst:
  "fst (get_task tr c i w) =
     Inr (case call_json tr (remote w) (get_request c i) of
            Inl e \<Rightarrow> JNull
          | Inr tasks \<Rightarrow>
              if truthy tasks then (case py_index0 tasks of Inl e \<Rightarrow> JNull | Inr t \<Rightarrow> t)
              else JNull)"
  using request_json_fst [of "''GET''" tr c "''tasks?id=eq.'' @ py_str_int i" None w]
  by (cases "request_json tr c ''GET'' (''tasks?id=eq.'' @ py_str_int i) None w")
     (auto simp: get_task_def get_request_def Let_def split: sum.splits)

lemma get_task_page:
  "page (snd (get_task tr c i w)) =
     page (snd (request_json tr c ''GET'' (''tasks?id=eq.'' @ py_str_int i) None w)) @
     (case call_json tr (remote w) (get_request c i) of
        Inl e \<Rightarrow> [Error (''Failed to fetch task '' @ py_str_int i @ '': '' @ exn_str e)]
      | Inr tasks \<Rightarrow>
          if truthy tasks then
            (case py_index0 tasks of
               Inl e \<Rightarrow> [Error (''Failed to fetch task '' @ py_str_int i @ '': '' @ exn_str e)]
             | Inr t \<Rightarrow> [])
          else [])"
  using request_json_fst [of "''GET''" tr c "''tasks?id=eq.'' @ py_str_int i" None w]
  by (cases "request_json tr c ''GET'' (''tasks?id=eq.'' @ py_str_int i) None w")
     (auto simp: get_task_def get_request_def Let_def st_error_def split: sum.splits)

lemma request_json_page_ok:
  assumes "supported m" "call_json tr (remote w) (api_request c m ep data) = Inr j"
  shows "page (snd (request_json tr c m ep data w)) = page w"
proof -
  from call_json_Inr_result [OF assms(2)] obtain resp
    where "call_result tr (remote w) (api_request c m ep data) = Inr resp" ..
  then show ?thesis by (simp add: request_json_page [OF assms(1)])
qed

lemma call_json_down: "call_json down s rq = Inl (Exn ConnectionError ''connection refused'')"
  by (simp add: call_json_def call_result_down)

subsection \<open>The six operations answer with an envelope\<close>

lemma answered_api_except: "answered (api_except e w)"
  by (simp add: answered_def api_except_def st_json_def envelope_error_def is_envelope_def)

lemma answered_error: "answered (Stopped, st_json (envelope_error m) w)"
  by (simp add: answered_def st_json_def envelope_error_def is_envelope_def)

lemma answered_success:
  "answered (Stopped, st_json (JObj ((''status'', JStr ''success'') # rest)) w)"
  by (simp add: answered_def st_json_def is_envelope_def)

lemma answered_failure:
  "answered (Stopped, st_json (JObj ((''status'', JStr ''error'') # rest)) w)"
  by (simp add: answered_def st_json_def is_envelope_def)

lemmas answered_intros = answered_api_except answered_error answered_success answered_failure

lemma answered_route_tasks: "answered (route_tasks tr c w)"
  by (cases "get_all_tasks tr c w")
     (auto simp: route_tasks_def answered_intros split: sum.splits)

lemma answered_route_task: "answered (route_task tr to_int c qp w)"
  unfolding route_task_def
  by (auto simp: answered_intros split: sum.splits option.splits prod.splits)

lemma answered_route_create_task: "answered (route_create_task tr c qp w)"
  unfolding route_create_task_def
  by (auto simp: answered_intros split: sum.splits option.splits prod.splits)

lemma answered_route_update_task: "answered (route_update_task tr to_int c qp w)"
  unfolding route_update_task_def
  by (auto simp: answered_intros split: sum.splits option.splits prod.splits)

lemma answered_route_delete_task: "answered (route_delete_task tr to_int c qp w)"
  unfolding route_delete_task_def
  by (auto simp: answered_intros split: sum.splits option.splits prod.splits)

lemma answered_route_health: "answered (route_health now w)"
  by (simp add: route_health_def answered_intros)

lemma known_operation_answered:
  assumes "qp ''api'' = Some (opn # vs)"
    and "opn = ''tasks'' \<or> opn = ''task'' \<or> opn = ''create_task'' \<or> opn = ''update_task''
         \<or> opn = ''delete_task'' \<or> opn = ''health''"
  shows "answered (script tr to_int c now qp w)"
  using assms
  by (auto simp: script_def answered_route_tasks answered_route_task answered_route_create_task
        answered_route_update_task answered_route_delete_task answered_route_health)

section \<open>Claims\<close>

text \<open>
  C1. Read/write asymmetry. When the remote call of an operation fails with an
  exception \<open>e\<close> (a transport failure, or the \<^verbatim>\<open>HTTPError\<close> of a 4xx/5xx status),
  \<^verbatim>\<open>get_all_tasks\<close> and \<^verbatim>\<open>search_tasks\<close> return the empty list and
  \<^verbatim>\<open>get_task_stats\<close> returns the zeroed statistics, none of them raising, while
  \<^verbatim>\<open>create_task\<close> and \<^verbatim>\<open>update_task\<close> raise that same exception \<open>e\<close>.
\<close>

theorem read_write_asymmetry:
  "(call_result tr (remote w) (api_request c ''GET'' ''tasks?order=created_at.desc'' None) = Inl e
      \<longrightarrow> fst (get_all_tasks tr c w) = Inr (JList []) \<and> fst (get_task_stats tr c w) = Inr zero_stats)
   \<and> (call_result tr (remote w) (api_request c ''GET'' (search_endpoint q) None) = Inl e
      \<longrightarrow> fst (search_tasks tr c q w) = Inr (JList []))
   \<and> (call_result tr (remote w) (api_request c ''POST'' ''tasks''
          (Some (JObj [(''title'', JStr t), (''description'', JStr d), (''completed'', JBool False)]))) = Inl e
      \<longrightarrow> fst (create_task tr c t d w) = Inl e)
   \<and> (call_result tr (remote w) (api_request c ''PATCH'' (''tasks?id=eq.'' @ py_str_int i)
          (Some (JObj [(''title'', JStr t), (''description'', JStr d), (''completed'', JBool b)]))) = Inl e
      \<longrightarrow> fst (update_task tr c i t d b w) = Inl e)"
  by (simp add: get_all_tasks_fst search_tasks_fst get_task_stats_fst create_task_fst update_task_fst
        call_result_Inl_json compute_stats_empty)

theorem read_write_asymmetry_witness:
  "fst (get_all_tasks down demo_client w0) = Inr (JList [])
   \<and> fst (get_task_stats down demo_client w0) = Inr zero_stats
   \<and> fst (search_tasks down demo_client ''milk'' w0) = Inr (JList [])
   \<and> fst (create_task down demo_client ''buy milk'' ''today'' w0)
        = Inl (Exn ConnectionError ''connection refused'')
   \<and> fst (update_task down demo_client 7 ''buy milk'' ''today'' True w0)
        = Inl (Exn ConnectionError ''connection refused'')"
  using read_write_asymmetry [of down w0 demo_client "Exn ConnectionError ''connection refused''"
          "''milk''" "''buy milk''" "''today''" 7 True]
  by (simp add: call_result_down)




text \<open>
  C3. The claim: every request with an \<^verbatim>\<open>api\<close> parameter, whatever its value, gets a
  JSON envelope and ends without the interactive page. The code at a value outside the
  six operation names, \<^verbatim>\<open>?api=foo\<close>: no \<^verbatim>\<open>elif\<close> matches and the chain has no
  \<^verbatim>\<open>else\<close>, so the run reaches the end of the script with nothing emitted by
  \<^verbatim>\<open>st.json\<close> and without \<^verbatim>\<open>st.stop()\<close>; only the block of
  \<^verbatim>\<open>set_cors_headers\<close> is on the page. The interactive page is not rendered. Each
  of the six operations does answer with an envelope, from its \<^verbatim>\<open>try\<close> or from its
  handler, as shown above.
\<close>

theorem unknown_operation_emits_nothing:
  "script tr to_int c now [''api'' \<mapsto> [''foo'']] w = (Completed, w\<lparr>page := page w @ [CorsScript]\<rparr>)
   \<and> \<not> answered (script tr to_int c now [''api'' \<mapsto> [''foo'']] w)"
  by (simp add: script_def set_cors_headers_def answered_def)

text \<open>
  C5, as the code has it. \<^verbatim>\<open>get_task\<close> returns the first element of the list the
  remote answers with; it returns \<^verbatim>\<open>None\<close> when the list is empty, and it returns
  \<^verbatim>\<open>None\<close> as well when the remote call or the decoding fails. The two differ only
  on the page: a task that is absent leaves it as it was, a failure puts the
  message \<^verbatim>\<open>Failed to fetch task <id>: <error>\<close> last on it.
\<close>

theorem get_task_outcomes:
  "(call_json tr (remote w) (get_request c i) = Inr (JList (t # ts))
      \<longrightarrow> fst (get_task tr c i w) = Inr t \<and> page (snd (get_task tr c i w)) = page w)
   \<and> (call_json tr (remote w) (get_request c i) = Inr (JList [])
      \<longrightarrow> fst (get_task tr c i w) = Inr JNull \<and> page (snd (get_task tr c i w)) = page w)
   \<and> (call_json tr (remote w) (get_request c i) = Inl e
      \<longrightarrow> fst (get_task tr c i w) = Inr JNull
          \<and> (\<exists>pre. page (snd (get_task tr c i w)) =
                 page w @ pre @ [Error (''Failed to fetch task '' @ py_str_int i @ '': '' @ exn_str e)]))"
proof (intro conjI impI)
  assume a: "call_json tr (remote w) (get_request c i) = Inr (JList (t # ts))"
  then show "fst (get_task tr c i w) = Inr t" by (simp add: get_task_fst)
  from a show "page (snd (get_task tr c i w)) = page w"
    using request_json_page_ok [of "''GET''" tr w c "''tasks?id=eq.'' @ py_str_int i" None]
    by (simp add: get_task_page get_request_def)
next
  assume a: "call_json tr (remote w) (get_request c i) = Inr (JList [])"
  then show "fst (get_task tr c i w) = Inr JNull" by (simp add: get_task_fst)
  from a show "page (snd (get_task tr c i w)) = page w"
    using request_json_page_ok [of "''GET''" tr w c "''tasks?id=eq.'' @ py_str_int i" None]
    by (simp add: get_task_page get_request_def)
next
  assume a: "call_json tr (remote w) (get_request c i) = Inl e"
  then show "fst (get_task tr c i w) = Inr JNull" by (simp add: get_task_fst)
  from a show "\<exists>pre. page (snd (get_task tr c i w)) =
                 page w @ pre @ [Error (''Failed to fetch task '' @ py_str_int i @ '': '' @ exn_str e)]"
    using request_json_page [of "''GET''" tr c "''tasks?id=eq.'' @ py_str_int i" None w]
    by (simp add: get_task_page get_request_def)
qed

theorem get_task_outcomes_witness:
  "fst (get_task (answers 200 (JList [JObj [(''id'', JInt 1), (''title'', JStr ''a'')]])) demo_client 1 w0)
     = Inr (JObj [(''id'', JInt 1), (''title'', JStr ''a'')])
   \<and> page (snd (get_task (answers 200 (JList [JObj [(''id'', JInt 1), (''title'', JStr ''a'')]]))
                   demo_client 1 w0)) = []
   \<and> fst (get_task (answers 200 (JList [])) demo_client 1 w0) = Inr JNull
   \<and> page (snd (get_task (answers 200 (JList [])) demo_client 1 w0)) = []
   \<and> fst (get_task down demo_client 1 w0) = Inr JNull
   \<and> (\<exists>pre. page (snd (get_task down demo_client 1 w0)) =
          pre @ [Error (''Failed to fetch task '' @ py_str_int 1 @ '': connection refused'')])"
  using get_task_outcomes [of "answers 200 (JList [JObj [(''id'', JInt 1), (''title'', JStr ''a'')]])"
          w0 demo_client 1 "JObj [(''id'', JInt 1), (''title'', JStr ''a'')]" "[]"]
        get_task_outcomes [of "answers 200 (JList [])" w0 demo_client 1]
        get_task_outcomes [of down w0 demo_client 1 _ _ "Exn ConnectionError ''connection refused''"]
  by (simp add: call_json_answers call_json_down w0_def)

text \<open>
  C5 as claimed (three outcomes that can be told apart) fails on the returned value:
  for a remote that has no task with the id and for a remote that cannot be reached,
  \<^verbatim>\<open>get_task(1)\<close> returns the same \<^verbatim>\<open>None\<close>.
\<close>

theorem get_task_absent_or_failed_is_none:
  "fst (get_task (answers 200 (JList [])) demo_client 1 w0) = Inr JNull
   \<and> fst (get_task down demo_client 1 w0) = Inr JNull"
  by (simp add: get_task_fst call_json_answers call_json_down)

text \<open>
  C6. A request for \<^verbatim>\<open>create_task\<close> without a \<^verbatim>\<open>title\<close> parameter, or with the empty
  string as title, ends by \<^verbatim>\<open>st.stop()\<close> with one error envelope on the page, and the
  state of the remote side is the one before the request, for every transport: the
  data access layer's \<^verbatim>\<open>create_task\<close> is not called.
\<close>

theorem create_task_requires_title:
  assumes "qp ''api'' = Some (''create_task'' # vs)"
    and "qp ''title'' = None \<or> (\<exists>ts. qp ''title'' = Some ([] # ts))"
  shows "\<exists>msg. script tr to_int c now qp w =
           (Stopped, w\<lparr>page := page w @ [CorsScript, Json (envelope_error msg)]\<rparr>)"
proof -
  have r: "script tr to_int c now qp w = route_create_task tr c qp (set_cors_headers w)"
    using assms(1) by (simp add: script_def)
  from assms(2) have t: "param0 qp ''title'' None = Inr None \<or> param0 qp ''title'' None = Inr (Some [])"
    by (auto simp: param0_def)
  show ?thesis
  proof (cases "param0 qp ''description'' (Some [])")
    case (Inl e)
    with t show ?thesis
      unfolding r route_create_task_def by (auto simp: api_except_after_cors)
  next
    case (Inr d)
    with t show ?thesis
      unfolding r route_create_task_def
      by (cases d) (auto simp: emit_after_cors)
  qed
qed

theorem create_task_requires_title_witness:
  "(\<exists>msg. script (answers 201 (JList [])) py_int demo_client ''2024-01-01T00:00:00''
            [''api'' \<mapsto> [''create_task''], ''description'' \<mapsto> [''no title'']] w0 =
           (Stopped, w0\<lparr>page := page w0 @ [CorsScript, Json (envelope_error msg)]\<rparr>))
   \<and> (\<exists>msg. script (answers 201 (JList [])) py_int demo_client ''2024-01-01T00:00:00''
            [''api'' \<mapsto> [''create_task''], ''title'' \<mapsto> [[]]] w0 =
           (Stopped, w0\<lparr>page := page w0 @ [CorsScript, Json (envelope_error msg)]\<rparr>))"
proof
  show "\<exists>msg. script (answers 201 (JList [])) py_int demo_client ''2024-01-01T00:00:00''
            [''api'' \<mapsto> [''create_task''], ''description'' \<mapsto> [''no title'']] w0 =
           (Stopped, w0\<lparr>page := page w0 @ [CorsScript, Json (envelope_error msg)]\<rparr>)"
    by (rule create_task_requires_title [where vs = "[]"]) simp_all
  show "\<exists>msg. script (answers 201 (JList [])) py_int demo_client ''2024-01-01T00:00:00''
            [''api'' \<mapsto> [''create_task''], ''title'' \<mapsto> [[]]] w0 =
           (Stopped, w0\<lparr>page := page w0 @ [CorsScript, Json (envelope_error msg)]\<rparr>)"
    by (rule create_task_requires_title [where vs = "[]"]) simp_all
qed

text \<open>
  C7, as the code has it. The read operations do not normalise: \<^verbatim>\<open>get_all_tasks\<close> and
  \<^verbatim>\<open>search_tasks\<close> return the decoded body of the response as it is, and \<^verbatim>\<open>get_task\<close>
  returns the first element of the list as it is.
\<close>

theorem reads_pass_through:
  "(call_json tr (remote w) (list_request c) = Inr body \<longrightarrow> fst (get_all_tasks tr c w) = Inr body)
   \<and> (call_json tr (remote w) (search_request c q) = Inr body
        \<longrightarrow> fst (search_tasks tr c q w) = Inr body)
   \<and> (call_json tr (remote w) (get_request c i) = Inr (JList (t # ts))
        \<longrightarrow> fst (get_task tr c i w) = Inr t)"
  by (simp add: get_all_tasks_fst search_tasks_fst get_task_fst list_request_def search_request_def)

theorem reads_pass_through_witness:
  "fst (get_all_tasks (answers 200 (JList [JObj [(''id'', JInt 1), (''title'', JStr ''a'')]])) demo_client w0)
     = Inr (JList [JObj [(''id'', JInt 1), (''title'', JStr ''a'')]])
   \<and> fst (search_tasks (answers 200 (JList [JObj [(''id'', JInt 1), (''title'', JStr ''a'')]]))
            demo_client ''a'' w0)
     = Inr (JList [JObj [(''id'', JInt 1), (''title'', JStr ''a'')]])
   \<and> fst (get_task (answers 200 (JList [JObj [(''id'', JInt 1), (''title'', JStr ''a'')]])) demo_client 1 w0)
     = Inr (JObj [(''id'', JInt 1), (''title'', JStr ''a'')])"
  using reads_pass_through [of "answers 200 (JList [JObj [(''id'', JInt 1), (''title'', JStr ''a'')]])"
          w0 demo_client "JList [JObj [(''id'', JInt 1), (''title'', JStr ''a'')]]" "''a''" 1
          "JObj [(''id'', JInt 1), (''title'', JStr ''a'')]" "[]"]
  by (simp add: call_json_answers)

text \<open>
  C7 as claimed (every task a read returns has a boolean \<^verbatim>\<open>completed\<close>) fails: a row
  whose \<^verbatim>\<open>completed\<close> column is null (the schema of \<^verbatim>\<open>config.py\<close> has no
  \<^verbatim>\<open>NOT NULL\<close> on it) and a record without the key come back from all three reads
  unchanged.
\<close>

theorem reads_keep_missing_completed:
  "fst (get_all_tasks
          (answers 200 (JList [JObj [(''id'', JInt 2), (''title'', JStr ''b''), (''completed'', JNull)],
                               JObj [(''id'', JInt 1), (''title'', JStr ''a'')]]))
          demo_client w0)
     = Inr (JList [JObj [(''id'', JInt 2), (''title'', JStr ''b''), (''completed'', JNull)],
                   JObj [(''id'', JInt 1), (''title'', JStr ''a'')]])
   \<and> fst (search_tasks
          (answers 200 (JList [JObj [(''id'', JInt 1), (''title'', JStr ''a'')]]))
          demo_client ''a'' w0)
     = Inr (JList [JObj [(''id'', JInt 1), (''title'', JStr ''a'')]])
   \<and> fst (get_task
          (answers 200 (JList [JObj [(''id'', JInt 2), (''title'', JStr ''b''), (''completed'', JNull)]]))
          demo_client 2 w0)
     = Inr (JObj [(''id'', JInt 2), (''title'', JStr ''b''), (''completed'', JNull)])
   \<and> \<not> has_bool_completed (JObj [(''id'', JInt 2), (''title'', JStr ''b''), (''completed'', JNull)])
   \<and> \<not> has_bool_completed (JObj [(''id'', JInt 1), (''title'', JStr ''a'')])"
  by (simp add: get_all_tasks_fst search_tasks_fst get_task_fst call_json_answers)

text \<open>
  C8. \<^verbatim>\<open>delete_task\<close> always returns a boolean and never raises: \<^verbatim>\<open>True\<close> when
  the remote delete succeeds, \<^verbatim>\<open>False\<close> when the remote call fails, whatever the
  exception.
\<close>

theorem delete_task_returns_bool:
  "(\<exists>b. fst (delete_task tr c i w) = Inr b)
   \<and> (call_result tr (remote w) (api_request c ''DELETE'' (''tasks?id=eq.'' @ py_str_int i) None)
         = Inr resp \<longrightarrow> fst (delete_task tr c i w) = Inr True)
   \<and> (call_result tr (remote w) (api_request c ''DELETE'' (''tasks?id=eq.'' @ py_str_int i) None)
         = Inl e \<longrightarrow> fst (delete_task tr c i w) = Inr False)"
  by (simp add: delete_task_fst)

theorem delete_task_returns_bool_witness:
  "fst (delete_task (answers 204 JNull) demo_client 7 w0) = Inr True
   \<and> fst (delete_task down demo_client 7 w0) = Inr False"
proof -
  have ok: "call_result (answers 204 JNull) (remote w0)
              (api_request demo_client ''DELETE'' (''tasks?id=eq.'' @ py_str_int 7) None)
            = Inr \<lparr>status_code = 204, reason = ''-'',
                   resp_url = req_url (api_request demo_client ''DELETE''
                                         (''tasks?id=eq.'' @ py_str_int 7) None),
                   json_body = Inr JNull\<rparr>"
    by (simp add: call_result_def answers_def raise_for_status_def)
  show ?thesis
    using delete_task_returns_bool [of "answers 204 JNull" demo_client 7 w0, THEN conjunct2, THEN conjunct1, rule_format, OF ok]
          delete_task_returns_bool [of down demo_client 7 w0 _ "Exn ConnectionError ''connection refused''"]
    by (simp add: call_result_down)
qed

text \<open>
  C9. A request for \<^verbatim>\<open>task\<close>, \<^verbatim>\<open>update_task\<close> or \<^verbatim>\<open>delete_task\<close> whose \<^verbatim>\<open>id\<close> is
  not an integer literal (\<^verbatim>\<open>int(id)\<close> raises an exception \<open>e\<close>, whatever
  \<^verbatim>\<open>int\<close> accepts) ends by \<^verbatim>\<open>st.stop()\<close> with one error
  envelope on the page and the remote side untouched; no exception escapes. The
  message of the envelope is the text of the conversion error whenever the conversion
  is reached: the id is not the empty string and, for \<^verbatim>\<open>update_task\<close>, a non-empty
  title is given.
\<close>

theorem malformed_id_error_envelope:
  assumes "qp ''api'' = Some (opn # vs)"
    and "opn = ''task'' \<or> opn = ''update_task'' \<or> opn = ''delete_task''"
    and "qp ''id'' = Some (s # ss)"
    and "to_int s = Inl e"
  shows "\<exists>msg. script tr to_int c now qp w =
           (Stopped, w\<lparr>page := page w @ [CorsScript, Json (envelope_error msg)]\<rparr>)
         \<and> (s \<noteq> [] \<and> (opn = ''update_task'' \<longrightarrow>
                (\<exists>t ts. qp ''title'' = Some (t # ts) \<and> t \<noteq> []) \<and> qp ''description'' \<noteq> Some []
                \<and> qp ''completed'' \<noteq> Some [])
            \<longrightarrow> msg = exn_str e)"
proof -
  have i: "param0 qp ''id'' None = Inr (Some s)"
    using assms(3) by (simp add: param0_def)
  from assms(2) consider "opn = ''task''" | "opn = ''update_task''" | "opn = ''delete_task''"
    by blast
  then show ?thesis
  proof cases
    case 1
    have "script tr to_int c now qp w = route_task tr to_int c qp (set_cors_headers w)"
      using assms(1) 1 by (simp add: script_def)
    with 1 i assms(4) show ?thesis
      by (auto simp: route_task_def api_except_after_cors emit_after_cors)
  next
    case 3
    have "script tr to_int c now qp w = route_delete_task tr to_int c qp (set_cors_headers w)"
      using assms(1) 3 by (simp add: script_def)
    with 3 i assms(4) show ?thesis
      by (auto simp: route_delete_task_def api_except_after_cors emit_after_cors)
  next
    case 2
    have r: "script tr to_int c now qp w = route_update_task tr to_int c qp (set_cors_headers w)"
      using assms(1) 2 by (simp add: script_def)
    show ?thesis
    proof (cases "param0 qp ''title'' None")
      case (Inl x)
      then have "qp ''title'' = Some []"
        by (auto simp: param0_def split: option.splits list.splits)
      with Inl i 2 show ?thesis
        unfolding r route_update_task_def by (auto simp: api_except_after_cors)
    next
      case title: (Inr title)
      show ?thesis
      proof (cases "param0 qp ''description'' (Some [])")
        case (Inl x)
        then have "qp ''description'' = Some []"
          by (auto simp: param0_def split: option.splits list.splits)
        with Inl title i 2 show ?thesis
          unfolding r route_update_task_def by (auto simp: api_except_after_cors)
      next
        case descr: (Inr d)
        show ?thesis
        proof (cases "completed_param qp")
          case (Inl x)
          then have "qp ''completed'' = Some []"
            by (auto simp: completed_param_eq split: option.splits list.splits)
          with Inl title descr i 2 show ?thesis
            unfolding r route_update_task_def by (auto simp: api_except_after_cors)
        next
          case (Inr flag)
          have tt: "str_truthy title \<longleftrightarrow> (\<exists>t ts. qp ''title'' = Some (t # ts) \<and> t \<noteq> [])"
            using title by (auto simp: param0_def split: option.splits list.splits)
          have dd: "d \<noteq> None"
            using descr by (auto simp: param0_def split: option.splits list.splits)
          from Inr title descr i 2 assms(4) tt dd show ?thesis
            unfolding r route_update_task_def
            by (cases title; cases d) (auto simp: api_except_after_cors emit_after_cors)
        qed
      qed
    qed
  qed
qed


theorem malformed_id_error_envelope_witness:
  "script (answers 200 (JList [])) py_int demo_client ''2024-01-01T00:00:00''
     [''api'' \<mapsto> [''delete_task''], ''id'' \<mapsto> [''12a'']] w0 =
   (Stopped, w0\<lparr>page := page w0 @ [CorsScript, Json (envelope_error (exn_str (invalid_literal ''12a'')))]\<rparr>)"
proof -
  from malformed_id_error_envelope
         [where qp = "[''api'' \<mapsto> [''delete_task''], ''id'' \<mapsto> [''12a'']]"
            and opn = "''delete_task''" and vs = "[]" and s = "''12a''" and ss = "[]"
            and to_int = py_int and e = "invalid_literal ''12a''"
            and tr = "answers 200 (JList [])" and c = demo_client
            and now = "''2024-01-01T00:00:00''" and w = w0]
  show ?thesis by (simp add: py_int_12a)
qed

text \<open>
  C10. The \<^verbatim>\<open>completed\<close> parameter of \<^verbatim>\<open>update_task\<close> is read as true exactly when
  its first value is one of the spellings of \<^verbatim>\<open>true\<close> in upper and lower case; any
  other value and an absent parameter are read as false. That boolean is the
  \<^verbatim>\<open>completed\<close> field of the body of the PATCH request the remote side receives.
\<close>

theorem completed_flag_semantics:
  "completed_param qp =
     (case qp ''completed'' of
        None \<Rightarrow> Inr False
      | Some [] \<Rightarrow> Inl (Exn IndexError ''list index out of range'')
      | Some (v # cs) \<Rightarrow> Inr (spells_true v))
   \<and> (qp ''api'' = Some (''update_task'' # vs) \<and> qp ''id'' = Some (s # ss) \<and> s \<noteq> []
        \<and> to_int s = Inr i \<and> qp ''title'' = Some (t # ts) \<and> t \<noteq> []
        \<and> param0 qp ''description'' (Some []) = Inr (Some d) \<and> completed_param qp = Inr flag
      \<longrightarrow> fst (script tr to_int c now qp w) = Stopped
          \<and> remote (snd (script tr to_int c now qp w)) =
              snd (tr (remote w) (api_request c ''PATCH'' (''tasks?id=eq.'' @ py_str_int i)
                     (Some (JObj [(''title'', JStr t), (''description'', JStr d),
                                  (''completed'', JBool flag)])))))"
proof (intro conjI impI)
  show "completed_param qp =
     (case qp ''completed'' of
        None \<Rightarrow> Inr False
      | Some [] \<Rightarrow> Inl (Exn IndexError ''list index out of range'')
      | Some (v # cs) \<Rightarrow> Inr (spells_true v))"
    by (rule completed_param_eq)
next
  assume a: "qp ''api'' = Some (''update_task'' # vs) \<and> qp ''id'' = Some (s # ss) \<and> s \<noteq> []
        \<and> to_int s = Inr i \<and> qp ''title'' = Some (t # ts) \<and> t \<noteq> []
        \<and> param0 qp ''description'' (Some []) = Inr (Some d) \<and> completed_param qp = Inr flag"
  then have r: "script tr to_int c now qp w = route_update_task tr to_int c qp (set_cors_headers w)"
    by (simp add: script_def)
  from a show "fst (script tr to_int c now qp w) = Stopped"
    unfolding r by (intro route_update_task_calls(1) [where s = s and ss = ss and i = i and t = t and ts = ts and d = d and flag = flag]) simp_all
  from a have "remote (snd (script tr to_int c now qp w)) =
      remote (snd (update_task tr c i t d flag (set_cors_headers w)))"
    unfolding r by (intro route_update_task_calls(2) [where s = s and ss = ss and i = i and t = t and ts = ts and d = d and flag = flag]) simp_all
  then show "remote (snd (script tr to_int c now qp w)) =
              snd (tr (remote w) (api_request c ''PATCH'' (''tasks?id=eq.'' @ py_str_int i)
                     (Some (JObj [(''title'', JStr t), (''description'', JStr d),
                                  (''completed'', JBool flag)]))))"
    by (simp add: update_task_remote set_cors_headers_def)
qed

theorem completed_flag_semantics_witness:
  "completed_param [''completed'' \<mapsto> [''TRUE'']] = Inr True
   \<and> completed_param [''completed'' \<mapsto> [''1'']] = Inr False
   \<and> completed_param [''completed'' \<mapsto> [''yes'']] = Inr False
   \<and> completed_param [''completed'' \<mapsto> [''True '']] = Inr False
   \<and> completed_param Map.empty = Inr False
   \<and> remote (snd (script (answers 200 (JList [])) py_int demo_client ''2024-01-01T00:00:00''
        [''api'' \<mapsto> [''update_task''], ''id'' \<mapsto> [''5''], ''title'' \<mapsto> [''x''],
         ''completed'' \<mapsto> [''tRuE'']] w0)) =
       [api_request demo_client ''PATCH'' ''tasks?id=eq.5''
          (Some (JObj [(''title'', JStr ''x''), (''description'', JStr []),
                       (''completed'', JBool True)]))]"
proof -
  let ?qp = "[''api'' \<mapsto> [''update_task''], ''id'' \<mapsto> [''5''], ''title'' \<mapsto> [''x''],
         ''completed'' \<mapsto> [''tRuE'']]"
  have c: "completed_param ?qp = Inr True"
    using completed_flag_semantics [of ?qp, THEN conjunct1] by (simp add: spells_true_def)
  have d: "param0 ?qp ''description'' (Some []) = Inr (Some [])"
    by (simp add: param0_def)
  have "remote (snd (script (answers 200 (JList [])) py_int demo_client ''2024-01-01T00:00:00'' ?qp w0)) =
        snd (answers 200 (JList []) (remote w0)
              (api_request demo_client ''PATCH'' (''tasks?id=eq.'' @ py_str_int 5)
                 (Some (JObj [(''title'', JStr ''x''), (''description'', JStr []),
                              (''completed'', JBool True)]))))"
    using completed_flag_semantics
            [where qp = ?qp and vs = "[]" and s = "''5''" and ss = "[]" and to_int = py_int
               and i = 5 and t = "''x''" and ts = "[]" and d = "[]" and flag = True
               and tr = "answers 200 (JList [])" and c = demo_client
               and now = "''2024-01-01T00:00:00''" and w = w0,
             THEN conjunct2] c d
    by (simp add: py_int_5)
  then have s: "remote (snd (script (answers 200 (JList [])) py_int demo_client ''2024-01-01T00:00:00'' ?qp w0)) =
       [api_request demo_client ''PATCH'' ''tasks?id=eq.5''
          (Some (JObj [(''title'', JStr ''x''), (''description'', JStr []),
                       (''completed'', JBool True)]))]"
    by (simp add: answers_def w0_def py_str_int_5)
  show ?thesis
    using completed_flag_semantics [of "[''completed'' \<mapsto> [''TRUE'']]", THEN conjunct1]
          completed_flag_semantics [of "[''completed'' \<mapsto> [''1'']]", THEN conjunct1]
          completed_flag_semantics [of "[''completed'' \<mapsto> [''yes'']]", THEN conjunct1]
          completed_flag_semantics [of "[''completed'' \<mapsto> [''True '']]", THEN conjunct1]
          completed_flag_semantics [of Map.empty, THEN conjunct1] s
    by (simp add: spells_true_def)
qed

end
